theory Spec2Isabelle
  imports Main
begin

section \<open>Python strings and integers\<close>

text \<open>
  The bot turns identifiers into option values with \<^verbatim>\<open>str(...)\<close> and reads them back with
  \<^verbatim>\<open>int(...)\<close>. Identifiers are Python integers (unbounded), strings are character lists.
  \<open>str_int\<close> is the decimal rendering of \<^verbatim>\<open>str\<close>. \<open>py_int\<close> is \<^verbatim>\<open>int\<close> on a string: white space
  around the number is dropped, a sign may come first, then decimal digits with single
  underscores allowed between them; \<open>None\<close> stands for the \<^verbatim>\<open>ValueError\<close> raised on anything
  else. Characters are bytes here, so the digits and spaces outside ASCII that \<^verbatim>\<open>int\<close> also
  accepts are not covered.
\<close>

definition digit_char :: "nat \<Rightarrow> char" where
  "digit_char d = char_of (48 + d)"

fun digits :: "nat \<Rightarrow> string" where
  "digits n = (if n < 10 then [digit_char n] else digits (n div 10) @ [digit_char (n mod 10)])"

declare digits.simps [simp del]

definition str_int :: "int \<Rightarrow> string" where
  "str_int i = (if i < 0 then CHR ''-'' # digits (nat (- i)) else digits (nat i))"

definition is_digit :: "char \<Rightarrow> bool" where
  "is_digit c = ((48::nat) \<le> of_char c \<and> (of_char c :: nat) \<le> 57)"

definition digit_val :: "char \<Rightarrow> nat" where
  "digit_val c = of_char c - 48"

definition is_space :: "char \<Rightarrow> bool" where
  "is_space c = ((of_char c :: nat) \<in> set [9, 10, 11, 12, 13, 28, 29, 30, 31, 32])"

definition strip :: "string \<Rightarrow> string" where
  "strip s = rev (dropWhile is_space (rev (dropWhile is_space s)))"

text \<open>The digits after the first one, each with at most one underscore before it.\<close>

fun parse_digits :: "nat \<Rightarrow> string \<Rightarrow> nat option" where
  "parse_digits acc [] = Some acc"
| "parse_digits acc [c] = (if is_digit c then Some (10 * acc + digit_val c) else None)"
| "parse_digits acc (c # d # ds) =
     (if is_digit c then parse_digits (10 * acc + digit_val c) (d # ds)
      else if c = CHR ''_'' \<and> is_digit d then parse_digits (10 * acc + digit_val d) ds
      else None)"

definition parse_nat :: "string \<Rightarrow> nat option" where
  "parse_nat s =
     (case s of
        [] \<Rightarrow> None
      | c # cs \<Rightarrow> if is_digit c then parse_digits (digit_val c) cs else None)"

definition py_int :: "string \<Rightarrow> int option" where
  "py_int s =
     (case strip s of
        [] \<Rightarrow> None
      | c # cs \<Rightarrow>
          if c = CHR ''-'' then map_option (\<lambda>n. - int n) (parse_nat cs)
          else if c = CHR ''+'' then map_option int (parse_nat cs)
          else map_option int (parse_nat (c # cs)))"

text \<open>\<^verbatim>\<open>sep.join(xs)\<close>\<close>

fun join :: "string \<Rightarrow> string list \<Rightarrow> string" where
  "join sep [] = []"
| "join sep [x] = x"
| "join sep (x # y # ys) = x @ sep @ join sep (y # ys)"

text \<open>
  The pieces of a string between the occurrences of a character, as \<^verbatim>\<open>s.split(c)\<close> gives them;
  it reads the tokens back from a joined string.
\<close>

fun split_on :: "char \<Rightarrow> string \<Rightarrow> string list" where
  "split_on c [] = [[]]"
| "split_on c (x # xs) =
     (if x = c then [] # split_on c xs
      else (case split_on c xs of [] \<Rightarrow> [[x]] | w # ws \<Rightarrow> (x # w) # ws))"


section \<open>The data of the bot\<close>

text \<open>
  What the handlers read from the gateway library's objects: a text channel of the guild with
  the bot's \<^verbatim>\<open>send_messages\<close> permission in it, a role, and the guild of an interaction.
\<close>

record channel =
  channel_id :: int
  channel_name :: string
  send_messages :: bool

record role =
  role_id :: int
  role_name :: string

record guild =
  text_channels :: "channel list"

record select_option =
  opt_label :: string
  opt_value :: string

text \<open>
  \<^verbatim>\<open>class MessageModal(ui.Modal, title='Message Content')\<close> with its two text inputs. The
  source builds it with \<^verbatim>\<open>MessageModal()\<close>, passing no timeout; the library's default for a
  modal is no timeout at all (\<open>None\<close>).
\<close>

datatype text_style = Short | Paragraph

record text_input =
  ti_label :: string
  ti_style :: text_style
  ti_required :: bool

record message_modal =
  modal_title :: string
  modal_timeout :: "nat option"
  msg_title :: text_input
  body :: text_input

definition MessageModal :: message_modal where
  "MessageModal =
     \<lparr>modal_title = ''Message Content'',
      modal_timeout = None,
      msg_title = \<lparr>ti_label = ''Title'', ti_style = Short, ti_required = True\<rparr>,
      body = \<lparr>ti_label = ''Body'', ti_style = Paragraph, ti_required = True\<rparr>\<rparr>"

text \<open>
  \<^verbatim>\<open>interaction.namespace\<close>. Every interaction (the choice in a dropdown, the submission of the
  modal, the press of a button) has a namespace of its own, empty when its handler starts. An
  attribute that was never assigned reads \<^verbatim>\<open>None\<close> (the library's namespace returns \<^verbatim>\<open>None\<close>
  for a missing attribute instead of raising), so \<^verbatim>\<open>hasattr\<close> holds of every name. The fields
  are the three attributes the handlers assign; \<open>None\<close> is Python's \<^verbatim>\<open>None\<close>.
\<close>

record namespace =
  ns_selected_channel_id :: "int option"
  ns_msg_title :: "string option"
  ns_body :: "string option"

definition Namespace :: namespace where
  "Namespace = \<lparr>ns_selected_channel_id = None, ns_msg_title = None, ns_body = None\<rparr>"

definition hasattr :: "namespace \<Rightarrow> string \<Rightarrow> bool" where
  "hasattr ns name = True"

text \<open>
  The two views. \<open>_stopped\<close> is set by \<^verbatim>\<open>self.stop()\<close>; \<open>_timeout\<close> is the argument of
  \<^verbatim>\<open>super().__init__(timeout=180)\<close>. \<open>rsv_selected_roles\<close> holds the identifiers of the
  \<^verbatim>\<open>discord.Object\<close>s in \<^verbatim>\<open>self.selected_roles\<close>.
\<close>

record channel_select_view =
  csv_timeout :: nat
  csv_selected_channel_id :: "int option"
  csv_options :: "select_option list"
  csv_min_values :: nat
  csv_max_values :: nat
  csv_stopped :: bool

record role_select_view =
  rsv_timeout :: nat
  rsv_selected_channel_id :: "int option"
  rsv_selected_roles :: "int list"
  rsv_options :: "select_option list"
  rsv_max_values :: nat
  rsv_stopped :: bool

text \<open>
  The message handed to \<^verbatim>\<open>channel.send(content=..., embed=...)\<close>. Title and description of the
  embed are what the handler read from its namespace (\<open>None\<close> is \<^verbatim>\<open>None\<close>); the colour of the
  embed is the same for every message and is left out.
\<close>

record embed =
  embed_title :: "string option"
  embed_description :: "string option"

record message =
  message_channel :: int
  message_content :: "string option"
  message_embed :: embed

text \<open>
  What a handler does to the outside, in the order it does it. The texts that the source
  builds from a library rendering (\<^verbatim>\<open>channel.mention\<close>, \<^verbatim>\<open>{e}\<close>) keep the rendered value as
  data. Every answer of the source is ephemeral, and answering is taken to succeed.
\<close>

datatype reply =
    Text string
  | MessageSentTo int
  | UnexpectedError string

datatype effect =
    SendMessage reply
  | SendMessageView string channel_select_view
  | SendModal message_modal
  | Defer
  | FollowupSend string
  | FollowupSendView string role_select_view
  | ChannelSend message

datatype py_error = IndexError | ValueError | AttributeError

text \<open>
  Two names the source uses do not exist in the library. \<^verbatim>\<open>discord.utils\<close> has no attribute
  \<^verbatim>\<open>Namespace\<close>, so evaluating \<^verbatim>\<open>discord.utils.Namespace()\<close> raises \<^verbatim>\<open>AttributeError\<close>; and a
  \<^verbatim>\<open>discord.Object\<close> has no attribute \<^verbatim>\<open>mention\<close>, so \<^verbatim>\<open>r.mention\<close> raises \<^verbatim>\<open>AttributeError\<close>
  for each of the objects in \<^verbatim>\<open>self.selected_roles\<close>.
\<close>

definition utils_Namespace :: "py_error + namespace" where
  "utils_Namespace = Inl AttributeError"

definition object_mention :: "int \<Rightarrow> py_error + string" where
  "object_mention object_id = Inl AttributeError"

text \<open>
  What the gateway answers when a handler runs: \<^verbatim>\<open>client.get_channel\<close> (no channel, a text
  channel with its identifier, or a channel of another type), the outcome of \<^verbatim>\<open>channel.send\<close>
  (delivered, \<^verbatim>\<open>discord.Forbidden\<close>, or another exception with its text) and
  \<^verbatim>\<open>interaction.guild.roles\<close>.
\<close>

datatype gateway_channel = TextChannel int | OtherChannel

datatype send_outcome = Delivered | Forbidden | OtherException string

record gateway =
  get_channel :: "int option \<Rightarrow> gateway_channel option"
  channel_send :: send_outcome
  guild_roles :: "role list"

text \<open>
  One flow: the channel view, the runs of \<^verbatim>\<open>channel_select_callback\<close> that are waiting in
  \<^verbatim>\<open>await message_modal.wait()\<close>, each on a modal of its own and each given by the namespace of
  the interaction it was started for, the role views shown so far in the order they were
  shown, and the messages that \<^verbatim>\<open>channel.send\<close> has delivered for this flow.
\<close>

record flow =
  channel_view :: channel_select_view
  waiting :: "namespace list"
  role_views :: "role_select_view list"
  delivered :: "message list"

text \<open>
  The result of a handler: it raised, with the flow as it was left at that moment, or it
  returned, with the flow and what it did to the outside. No handler of the source does
  anything to the outside before it raises.
\<close>

type_synonym result = "py_error \<times> flow + flow \<times> effect list"


section \<open>The handlers\<close>

subsection \<open>\<^verbatim>\<open>ChannelSelectView.__init__\<close> and \<^verbatim>\<open>send_message_command\<close>\<close>

definition channel_options :: "channel list \<Rightarrow> select_option list" where
  "channel_options chs =
     (let options = map (\<lambda>ch. \<lparr>opt_label = CHR ''#'' # channel_name ch,
                                  opt_value = str_int (channel_id ch)\<rparr>) chs
      in if options = []
         then options @ [\<lparr>opt_label = ''No text channels found'', opt_value = ''no_channels''\<rparr>]
         else options)"

definition ChannelSelectView :: "channel list \<Rightarrow> channel_select_view" where
  "ChannelSelectView chs =
     \<lparr>csv_timeout = 180,
      csv_selected_channel_id = None,
      csv_options = channel_options chs,
      csv_min_values = 1,
      csv_max_values = 1,
      csv_stopped = False\<rparr>"

text \<open>
  The flow of a channel view just built for the channels \<open>chs\<close> (lines 183 and 184 of the
  source): nothing is waiting, no role view was shown, nothing was delivered.
\<close>

definition new_flow :: "channel list \<Rightarrow> flow" where
  "new_flow chs =
     \<lparr>channel_view = ChannelSelectView chs, waiting = [], role_views = [], delivered = []\<rparr>"

text \<open>
  The command. The argument is \<^verbatim>\<open>interaction.guild\<close> (\<open>None\<close> outside a guild); the result is
  the exception it raised, or the flow it has set up, if any, and what it answered. The
  namespace it means to create is not used by any other handler, each of which reads the
  namespace of its own interaction.
\<close>

definition send_message_command :: "guild option \<Rightarrow> py_error + flow option \<times> effect list" where
  "send_message_command g =
     (case g of
        None \<Rightarrow> Inr (None, [SendMessage (Text ''This command can only be used in a server.'')])
      | Some gd \<Rightarrow>
          let chs = filter send_messages (text_channels gd) in
          if chs = [] then
            Inr (None, [SendMessage (Text
               ''I don't have permission to send messages in any channel, or no text channels exist.'')])
          else
            (case utils_Namespace of
               Inl e \<Rightarrow> Inl e
             | Inr ns \<Rightarrow>
                 Inr (Some (new_flow chs),
                      [SendMessageView ''Please select a channel to send the message to:''
                         (ChannelSelectView chs)])))"

subsection \<open>\<^verbatim>\<open>RoleSelectView.__init__\<close>\<close>

definition role_options :: "role list \<Rightarrow> select_option list" where
  "role_options rs =
     (let options = map (\<lambda>r. \<lparr>opt_label = role_name r, opt_value = str_int (role_id r)\<rparr>)
                        (filter (\<lambda>r. role_name r \<noteq> ''@everyone'') rs)
      in if options = []
         then options @ [\<lparr>opt_label = ''No roles available'', opt_value = ''no_roles''\<rparr>]
         else options)"

definition RoleSelectView :: "role list \<Rightarrow> int option \<Rightarrow> role_select_view" where
  "RoleSelectView rs selected_channel_id =
     (let options = role_options rs in
      \<lparr>rsv_timeout = 180,
       rsv_selected_channel_id = selected_channel_id,
       rsv_selected_roles = [],
       rsv_options = options,
       rsv_max_values = (if opt_value (hd options) \<noteq> ''no_roles'' then length options else 1),
       rsv_stopped = False\<rparr>)"

subsection \<open>\<^verbatim>\<open>ChannelSelectView.channel_select_callback\<close> and \<^verbatim>\<open>MessageModal.on_submit\<close>\<close>

text \<open>
  The callback up to \<^verbatim>\<open>await message_modal.wait()\<close>, where it joins the waiting runs. \<open>vs\<close> is
  \<^verbatim>\<open>self.channel_select.values\<close>. The assignment to \<^verbatim>\<open>interaction.namespace.selected_channel_id\<close>
  (line 147) changes the namespace of this interaction only.
\<close>

definition channel_select_callback :: "flow \<Rightarrow> string list \<Rightarrow> result" where
  "channel_select_callback f vs =
     (case vs of
        [] \<Rightarrow> Inl (IndexError, f)
      | v # _ \<Rightarrow>
          if v = ''no_channels'' then
            Inr (f\<lparr>channel_view := (channel_view f)\<lparr>csv_stopped := True\<rparr>\<rparr>,
                 [SendMessage (Text ''No text channels available to send a message to.'')])
          else
            (case py_int v of
               None \<Rightarrow> Inl (ValueError, f)
             | Some cid \<Rightarrow>
                 Inr (f\<lparr>channel_view := (channel_view f)\<lparr>csv_selected_channel_id := Some cid\<rparr>,
                        waiting := waiting f @
                          [Namespace\<lparr>ns_selected_channel_id := Some cid\<rparr>]\<rparr>,
                      [SendModal MessageModal])))"

text \<open>
  \<open>on_submit\<close> gives the namespace of the submission after it ran, and what it did. That
  namespace belongs to the submission; no other handler sees it.
\<close>

definition on_submit :: "string \<Rightarrow> string \<Rightarrow> namespace \<times> effect list" where
  "on_submit title_value body_value =
     (Namespace\<lparr>ns_msg_title := Some title_value, ns_body := Some body_value\<rparr>, [Defer])"

text \<open>
  The rest of the callback, once \<^verbatim>\<open>message_modal.wait()\<close> has returned, for the waiting run at
  position \<open>k\<close>, which leaves the waiting runs. \<open>ns\<close> is the namespace of the interaction it
  was started for.
\<close>

definition channel_select_resume ::
  "gateway \<Rightarrow> flow \<Rightarrow> nat \<Rightarrow> namespace \<Rightarrow> flow \<times> effect list" where
  "channel_select_resume gw f k ns =
     (let stopped = (channel_view f)\<lparr>csv_stopped := True\<rparr>;
          others = take k (waiting f) @ drop (Suc k) (waiting f)
      in
      if hasattr ns ''msg_title'' \<and> hasattr ns ''body'' then
        let role_view' = RoleSelectView (guild_roles gw) (csv_selected_channel_id (channel_view f)) in
        (f\<lparr>waiting := others, role_views := role_views f @ [role_view'],
           channel_view := stopped\<rparr>,
         [FollowupSendView ''Please select roles to mention (optional):'' role_view'])
      else
        (f\<lparr>waiting := others, channel_view := stopped\<rparr>,
         [FollowupSend ''Failed to get message content from modal.'']))"

text \<open>
  A submission of the modal of the waiting run at position \<open>k\<close>: \<open>on_submit\<close>, then that run
  goes on.
\<close>

definition modal_submitted ::
  "gateway \<Rightarrow> flow \<Rightarrow> nat \<Rightarrow> string \<Rightarrow> string \<Rightarrow> flow \<times> effect list" where
  "modal_submitted gw f k title_value body_value =
     (let (ns1, effs1) = on_submit title_value body_value;
          (f2, effs2) = channel_select_resume gw f k (waiting f ! k)
      in (f2, effs1 @ effs2))"

subsection \<open>The callbacks of \<^verbatim>\<open>RoleSelectView\<close>\<close>

text \<open>
  Each takes the flow, the position \<open>i\<close> of the role view that received the interaction among
  the role views of the flow, and that view (\<^verbatim>\<open>self\<close>). \<open>vs\<close> is \<^verbatim>\<open>self.role_select.values\<close>.
\<close>

fun parse_ids :: "string list \<Rightarrow> int list option" where
  "parse_ids [] = Some []"
| "parse_ids (v # vs) =
     (case py_int v of
        None \<Rightarrow> None
      | Some i \<Rightarrow> (case parse_ids vs of None \<Rightarrow> None | Some is \<Rightarrow> Some (i # is)))"

text \<open>\<^verbatim>\<open>[r.mention for r in self.selected_roles]\<close>\<close>

fun object_mentions :: "int list \<Rightarrow> py_error + string list" where
  "object_mentions [] = Inr []"
| "object_mentions (i # is) =
     (case object_mention i of
        Inl e \<Rightarrow> Inl e
      | Inr m \<Rightarrow> (case object_mentions is of Inl e \<Rightarrow> Inl e | Inr ms \<Rightarrow> Inr (m # ms)))"

definition role_select_callback ::
  "flow \<Rightarrow> nat \<Rightarrow> role_select_view \<Rightarrow> string list \<Rightarrow> result" where
  "role_select_callback f i self vs =
     (if ''no_roles'' \<in> set vs then
        Inr (f\<lparr>role_views := (role_views f)[i := self\<lparr>rsv_selected_roles := []\<rparr>]\<rparr>,
             [SendMessage (Text ''No roles selected or available.'')])
      else
        (case parse_ids vs of
           None \<Rightarrow> Inl (ValueError, f)
         | Some ids \<Rightarrow>
             let f' = f\<lparr>role_views := (role_views f)[i := self\<lparr>rsv_selected_roles := ids\<rparr>]\<rparr> in
             if ids \<noteq> [] then
               (case object_mentions ids of
                  Inl e \<Rightarrow> Inl (e, f')
                | Inr ms \<Rightarrow>
                    Inr (f', [SendMessage (Text (''Selected roles: '' @ join '', '' ms))]))
             else Inr (f', [SendMessage (Text ''Selected roles: None'')])))"

definition mention_token :: "int \<Rightarrow> string" where
  "mention_token rid = ''<@&'' @ str_int rid @ ''>''"

definition role_mentions_str :: "int list \<Rightarrow> string" where
  "role_mentions_str roles_to_mention =
     (if roles_to_mention \<noteq> [] then join '' '' (map mention_token roles_to_mention) else [])"

text \<open>
  \<^verbatim>\<open>interaction\<close> is the press of the button, whose namespace is empty: title and body read
  \<^verbatim>\<open>None\<close>.
\<close>

definition send_message_action ::
  "gateway \<Rightarrow> flow \<Rightarrow> nat \<Rightarrow> role_select_view \<Rightarrow> int list \<Rightarrow> result" where
  "send_message_action gw f i self roles_to_mention =
     (let title_value = ns_msg_title Namespace;
          body_value = ns_body Namespace
      in
      (case get_channel gw (rsv_selected_channel_id self) of
         Some (TextChannel cid) \<Rightarrow>
           let msg = \<lparr>message_channel = cid,
                      message_content = (if role_mentions_str roles_to_mention \<noteq> []
                                         then Some (role_mentions_str roles_to_mention) else None),
                      message_embed = \<lparr>embed_title = title_value,
                                        embed_description = body_value\<rparr>\<rparr>;
               stopped = (role_views f)[i := self\<lparr>rsv_stopped := True\<rparr>]
           in (case channel_send gw of
                 Delivered \<Rightarrow>
                   Inr (f\<lparr>delivered := delivered f @ [msg], role_views := stopped\<rparr>,
                        [ChannelSend msg, SendMessage (MessageSentTo cid)])
               | Forbidden \<Rightarrow>
                   Inr (f\<lparr>role_views := stopped\<rparr>,
                        [ChannelSend msg, SendMessage (Text
                           ''Error: I don't have permission to send messages to that channel.'')])
               | OtherException e \<Rightarrow>
                   Inr (f\<lparr>role_views := stopped\<rparr>,
                        [ChannelSend msg, SendMessage (UnexpectedError e)]))
       | _ \<Rightarrow> Inr (f, [SendMessage (Text ''Error: Could not find the selected channel.'')])))"

definition send_button_callback :: "gateway \<Rightarrow> flow \<Rightarrow> nat \<Rightarrow> role_select_view \<Rightarrow> result" where
  "send_button_callback gw f i self = send_message_action gw f i self (rsv_selected_roles self)"

definition skip_button_callback :: "gateway \<Rightarrow> flow \<Rightarrow> nat \<Rightarrow> role_select_view \<Rightarrow> result" where
  "skip_button_callback gw f i self = send_message_action gw f i self []"


section \<open>Dispatch of interactions\<close>

text \<open>
  The interactions a flow can receive: a choice in the channel dropdown, a submission of the
  modal of the waiting run at a given position, with the values of its two inputs, and, for the
  role view at a given position, a choice in its dropdown and its two buttons.
\<close>

datatype event =
    ChannelSelect "string list"
  | ModalSubmit nat string string
  | RoleSelect nat "string list"
  | SendButton nat
  | SkipButton nat

text \<open>
  The gateway library hands an interaction with a component to the callback of the view that
  holds the component, as long as that view has not been stopped, and a submission to the modal
  it belongs to, for which a callback is waiting. It drops every other interaction: no handler
  runs, the flow is as before and nothing is answered. A handler runs up to its next wait for
  the user before another one of the same flow starts. While \<^verbatim>\<open>channel_select_callback\<close> waits
  for its modal the view is not stopped yet (\<^verbatim>\<open>self.stop()\<close> is the last statement), so a
  further choice in the channel dropdown runs the callback again, with a modal of its own, and
  every one of these modals can be submitted, whatever has happened to the flow since.
\<close>

definition dispatch :: "gateway \<Rightarrow> flow \<Rightarrow> event \<Rightarrow> result" where
  "dispatch gw f ev =
     (case ev of
        ChannelSelect vs \<Rightarrow>
          if csv_stopped (channel_view f) then Inr (f, []) else channel_select_callback f vs
      | ModalSubmit k title_value body_value \<Rightarrow>
          if k < length (waiting f) then Inr (modal_submitted gw f k title_value body_value)
          else Inr (f, [])
      | RoleSelect i vs \<Rightarrow>
          if i < length (role_views f) \<and> \<not> rsv_stopped (role_views f ! i)
          then role_select_callback f i (role_views f ! i) vs else Inr (f, [])
      | SendButton i \<Rightarrow>
          if i < length (role_views f) \<and> \<not> rsv_stopped (role_views f ! i)
          then send_button_callback gw f i (role_views f ! i) else Inr (f, [])
      | SkipButton i \<Rightarrow>
          if i < length (role_views f) \<and> \<not> rsv_stopped (role_views f ! i)
          then skip_button_callback gw f i (role_views f ! i) else Inr (f, []))"

text \<open>The flow after an interaction, whether its handler returned or raised.\<close>

definition after :: "gateway \<Rightarrow> flow \<Rightarrow> event \<Rightarrow> flow" where
  "after gw f ev = (case dispatch gw f ev of Inl (e, f') \<Rightarrow> f' | Inr (f', effs) \<Rightarrow> f')"


text \<open>
  The idle window of a view. When it runs out the library calls \<^verbatim>\<open>on_timeout\<close>, which the
  source does not define for either view (the library's own does nothing), and the view
  receives no further interaction, as after \<^verbatim>\<open>stop()\<close>. A modal without a timeout has no idle
  window and does not expire.
\<close>

datatype prompt = ChannelPrompt | RolePrompt nat

definition expire :: "flow \<Rightarrow> prompt \<Rightarrow> flow \<times> effect list" where
  "expire f p =
     (case p of
        ChannelPrompt \<Rightarrow> (f\<lparr>channel_view := (channel_view f)\<lparr>csv_stopped := True\<rparr>\<rparr>, [])
      | RolePrompt i \<Rightarrow>
          (if i < length (role_views f)
           then f\<lparr>role_views := (role_views f)[i := (role_views f ! i)\<lparr>rsv_stopped := True\<rparr>]\<rparr>
           else f,
           []))"


section \<open>The stage of a flow\<close>

text \<open>
  The source keeps no stage field. The stage of the specification is read off the flow: which
  prompt is live, and, once every role view has been stopped, whether a message was delivered.
\<close>

datatype stage = AwaitingChannel | AwaitingForm | AwaitingRoles | Completed | Aborted

definition stage_of :: "flow \<Rightarrow> stage" where
  "stage_of f =
     (if role_views f \<noteq> [] then
        (if list_all rsv_stopped (role_views f)
         then (if delivered f = [] then Aborted else Completed)
         else AwaitingRoles)
      else if waiting f \<noteq> [] then AwaitingForm
      else if csv_stopped (channel_view f) then Aborted
      else AwaitingChannel)"





text \<open>One step of the stage machine of the specification, or no step.\<close>

fun forward :: "stage \<Rightarrow> stage \<Rightarrow> bool" where
  "forward AwaitingChannel t = (t = AwaitingChannel \<or> t = AwaitingForm)"
| "forward AwaitingForm t = (t = AwaitingForm \<or> t = AwaitingRoles)"
| "forward AwaitingRoles t = (t = AwaitingRoles \<or> t = Completed \<or> t = Aborted)"
| "forward Completed t = (t = Completed)"
| "forward Aborted t = (t = Aborted)"



text \<open>
  What holds of a new flow and after every interaction and every expiry: a role view exists
  only once the channel view is stopped; a message is delivered only when some role view is
  stopped; the channel dropdown offers no \<^verbatim>\<open>no_channels\<close> entry.
\<close>

definition flow_inv :: "flow \<Rightarrow> bool" where
  "flow_inv f =
     ((role_views f = [] \<or> csv_stopped (channel_view f)) \<and>
      (delivered f = [] \<or> list_ex rsv_stopped (role_views f)) \<and>
      ''no_channels'' \<notin> opt_value ` set (csv_options (channel_view f)))"


text \<open>The role view at position \<open>i\<close> is the only one that is not stopped.\<close>

definition only_live :: "flow \<Rightarrow> nat \<Rightarrow> bool" where
  "only_live f i =
     (i < length (role_views f) \<and> \<not> rsv_stopped (role_views f ! i) \<and>
      list_all rsv_stopped (take i (role_views f)) \<and>
      list_all rsv_stopped (drop (Suc i) (role_views f)))"




section \<open>The scenario of the specification\<close>

text \<open>
  A guild with the channels \<^verbatim>\<open>general\<close> and \<^verbatim>\<open>logs\<close> and the role \<^verbatim>\<open>mods\<close>; the gateway knows
  both channels, and the outcome of a delivery and the roles of the guild are given. The flow
  of a channel view for the two channels, after \<^verbatim>\<open>general\<close> was chosen, after the form was
  submitted, after \<^verbatim>\<open>mods\<close> was selected, and after the send button.
\<close>

definition scenario_guild :: guild where
  "scenario_guild =
     \<lparr>text_channels =
        [\<lparr>channel_id = 1, channel_name = ''general'', send_messages = True\<rparr>,
         \<lparr>channel_id = 2, channel_name = ''logs'', send_messages = True\<rparr>]\<rparr>"

definition scenario_roles :: "role list" where
  "scenario_roles =
     [\<lparr>role_id = 9, role_name = ''@everyone''\<rparr>, \<lparr>role_id = 7, role_name = ''mods''\<rparr>]"

definition scenario_gateway :: "send_outcome \<Rightarrow> role list \<Rightarrow> gateway" where
  "scenario_gateway outcome rs =
     \<lparr>get_channel =
        (\<lambda>cid. case cid of
                 None \<Rightarrow> None
               | Some c \<Rightarrow> if c = 1 \<or> c = 2 then Some (TextChannel c) else None),
      channel_send = outcome,
      guild_roles = rs\<rparr>"

definition scenario_start :: flow where
  "scenario_start = new_flow (text_channels scenario_guild)"

definition scenario_form :: flow where
  "scenario_form =
     after (scenario_gateway Delivered scenario_roles) scenario_start (ChannelSelect [''1''])"

definition scenario_chosen :: "role list \<Rightarrow> flow" where
  "scenario_chosen rs =
     after (scenario_gateway Delivered rs) scenario_form
       (ModalSubmit 0 ''Maintenance'' ''Service restarts at 5pm'')"

definition scenario_selected :: flow where
  "scenario_selected =
     after (scenario_gateway Delivered scenario_roles) (scenario_chosen scenario_roles)
       (RoleSelect 0 [''7''])"

definition scenario_sent :: "send_outcome \<Rightarrow> flow" where
  "scenario_sent outcome =
     after (scenario_gateway outcome scenario_roles) scenario_selected (SendButton 0)"

text \<open>The same guild with no role but the implicit one, and a gateway that finds no channel.\<close>

definition scenario_everyone :: "role list" where
  "scenario_everyone = [\<lparr>role_id = 9, role_name = ''@everyone''\<rparr>]"

definition scenario_no_channel :: gateway where
  "scenario_no_channel =
     \<lparr>get_channel = (\<lambda>cid. None), channel_send = Delivered, guild_roles = scenario_roles\<rparr>"



section \<open>Reading back what \<open>str_int\<close> writes\<close>

lemma is_digit_digit_char: "d < 10 \<Longrightarrow> is_digit (digit_char d)"
  by (simp add: is_digit_def digit_char_def)

lemma digit_val_digit_char: "d < 10 \<Longrightarrow> digit_val (digit_char d) = d"
  by (simp add: digit_val_def digit_char_def)

lemma digits_not_Nil: "digits n \<noteq> []"
  by (induction n rule: digits.induct) (subst digits.simps, simp)

lemma digits_all_digit: "list_all is_digit (digits n)"
proof (induction n rule: digits.induct)
  case (1 n)
  show ?case
    by (subst digits.simps) (use 1 in \<open>simp add: is_digit_digit_char\<close>)
qed

lemma digits_value: "foldl (\<lambda>a c. 10 * a + digit_val c) 0 (digits n) = n"
proof (induction n rule: digits.induct)
  case (1 n)
  show ?case
    by (subst digits.simps) (use 1 in \<open>simp add: digit_val_digit_char\<close>)
qed

lemma parse_digits_all_digit:
  "list_all is_digit ds \<Longrightarrow>
   parse_digits acc ds = Some (foldl (\<lambda>a c. 10 * a + digit_val c) acc ds)"
  by (induction acc ds rule: parse_digits.induct) simp_all

lemma digits_Cons: "\<exists>c cs. digits n = c # cs \<and> is_digit c \<and> list_all is_digit cs"
  using digits_not_Nil [of n] digits_all_digit [of n] by (cases "digits n") auto

lemma parse_nat_digits: "parse_nat (digits n) = Some n"
proof -
  obtain c cs where d: "digits n = c # cs" and c: "is_digit c" and cs: "list_all is_digit cs"
    using digits_Cons by blast
  have "parse_nat (c # cs) = Some (foldl (\<lambda>a c. 10 * a + digit_val c) 0 (c # cs))"
    using c cs by (simp add: parse_nat_def parse_digits_all_digit)
  then show ?thesis
    using digits_value [of n] by (simp add: d)
qed

lemma digit_not_space: "is_digit c \<Longrightarrow> \<not> is_space c"
  by (auto simp: is_digit_def is_space_def)

lemma dropWhile_none: "\<forall>c \<in> set s. \<not> P c \<Longrightarrow> dropWhile P s = s"
  by (cases s) simp_all

lemma strip_no_space: "\<forall>c \<in> set s. \<not> is_space c \<Longrightarrow> strip s = s"
  by (simp add: strip_def dropWhile_none)

lemma no_space_in_digits: "\<forall>c \<in> set (digits n). \<not> is_space c"
  using digits_all_digit [of n] digit_not_space by (auto simp: list_all_iff)

lemma no_space_in_str_int: "\<forall>c \<in> set (str_int i). \<not> is_space c"
  using no_space_in_digits by (auto simp: str_int_def is_space_def)

lemma py_int_str_int: "py_int (str_int i) = Some i"
proof (cases "i < 0")
  case True
  have "strip (str_int i) = CHR ''-'' # digits (nat (- i))"
    using strip_no_space [OF no_space_in_str_int, of i] True by (simp add: str_int_def)
  then show ?thesis
    using True by (simp add: py_int_def parse_nat_digits)
next
  case False
  obtain c cs where d: "digits (nat i) = c # cs" and c: "is_digit c"
    using digits_Cons by blast
  have s: "strip (str_int i) = c # cs"
    using strip_no_space [OF no_space_in_str_int, of i] False by (simp add: str_int_def d)
  have "c \<noteq> CHR ''-''" "c \<noteq> CHR ''+''"
    using c by (auto simp: is_digit_def)
  then have "py_int (str_int i) = map_option int (parse_nat (digits (nat i)))"
    by (simp add: py_int_def s d)
  then show ?thesis
    using False by (simp add: parse_nat_digits)
qed

lemma str_int_inj: "str_int i = str_int j \<Longrightarrow> i = j"
  by (metis py_int_str_int option.inject)


lemma py_int_no_roles: "py_int ''no_roles'' = None"
  by code_simp


lemma str_int_not_no_roles: "str_int i \<noteq> ''no_roles''"
  using py_int_str_int [of i] py_int_no_roles by auto


section \<open>Mention tokens\<close>

lemma split_on_single: "c \<notin> set t \<Longrightarrow> split_on c t = [t]"
  by (induction t) (auto split: list.splits)

lemma split_on_append: "c \<notin> set t \<Longrightarrow> split_on c (t @ c # rest) = t # split_on c rest"
  by (induction t) (auto split: list.splits)

lemma split_on_join:
  "ts \<noteq> [] \<Longrightarrow> \<forall>t \<in> set ts. c \<notin> set t \<Longrightarrow> split_on c (join [c] ts) = ts"
proof (induction "[c]" ts rule: join.induct)
  case 1
  then show ?case by simp
next
  case (2 x)
  then show ?case by (simp add: split_on_single)
next
  case (3 x y ys)
  then show ?case by (simp add: split_on_append)
qed

lemma space_not_in_digits: "CHR '' '' \<notin> set (digits n)"
  using no_space_in_digits [of n] by (auto simp: is_space_def)

lemma space_not_in_mention_token: "CHR '' '' \<notin> set (mention_token i)"
  by (simp add: mention_token_def str_int_def space_not_in_digits)

lemma mention_token_inj: "mention_token i = mention_token j \<Longrightarrow> i = j"
  by (simp add: mention_token_def str_int_inj)

lemma distinct_mention_tokens: "distinct rs \<Longrightarrow> distinct (map mention_token rs)"
  by (simp add: distinct_map inj_on_def mention_token_inj)

lemma join_not_Nil: "xs \<noteq> [] \<Longrightarrow> \<forall>x \<in> set xs. x \<noteq> [] \<Longrightarrow> join sep xs \<noteq> []"
  by (induction sep xs rule: join.induct) auto

lemma role_mentions_str_Nil: "role_mentions_str rs = [] \<longleftrightarrow> rs = []"
proof (cases "rs = []")
  case True
  then show ?thesis by (simp add: role_mentions_str_def)
next
  case False
  have "\<forall>x \<in> set (map mention_token rs). x \<noteq> []"
    by (simp add: mention_token_def)
  with False have "join '' '' (map mention_token rs) \<noteq> []"
    by (intro join_not_Nil) auto
  with False show ?thesis by (simp add: role_mentions_str_def)
qed


section \<open>The options of the dropdowns\<close>




lemma role_options_not_Nil: "role_options rs \<noteq> []"
  by (simp add: role_options_def Let_def)

lemma role_options_values:
  "filter (\<lambda>r. role_name r \<noteq> ''@everyone'') rs \<noteq> [] \<Longrightarrow>
   role_options rs =
     map (\<lambda>r. \<lparr>opt_label = role_name r, opt_value = str_int (role_id r)\<rparr>)
         (filter (\<lambda>r. role_name r \<noteq> ''@everyone'') rs)"
  by (simp add: role_options_def Let_def)

lemma role_options_none:
  "filter (\<lambda>r. role_name r \<noteq> ''@everyone'') rs = [] \<Longrightarrow>
   role_options rs = [\<lparr>opt_label = ''No roles available'', opt_value = ''no_roles''\<rparr>]"
  by (simp add: role_options_def Let_def)


section \<open>The flow invariant and the stage order\<close>

lemma list_all_update_same:
  "i < length xs \<Longrightarrow> P v = P (xs ! i) \<Longrightarrow> list_all P (xs[i := v]) = list_all P xs"
  by (auto simp: list_all_length nth_list_update)


lemma list_ex_update: "i < length xs \<Longrightarrow> P v \<Longrightarrow> list_ex P (xs[i := v])"
  by (auto simp: list_ex_length nth_list_update)

lemma not_list_all_nth: "i < length xs \<Longrightarrow> \<not> P (xs ! i) \<Longrightarrow> \<not> list_all P xs"
  by (auto simp: list_all_length)



lemma stage_of_live:
  "i < length (role_views f) \<Longrightarrow> \<not> rsv_stopped (role_views f ! i) \<Longrightarrow>
   stage_of f = AwaitingRoles"
  using not_list_all_nth [of i "role_views f" rsv_stopped]
  by (auto simp: stage_of_def)



lemma forward_from_roles:
  "t = AwaitingRoles \<or> t = Completed \<or> t = Aborted \<Longrightarrow> forward AwaitingRoles t"
  by auto



lemma flow_inv_expire: "flow_inv f \<Longrightarrow> flow_inv (fst (expire f p))"
proof (cases p)
  case ChannelPrompt
  assume "flow_inv f"
  then show ?thesis by (simp add: ChannelPrompt expire_def flow_inv_def)
next
  case (RolePrompt i)
  assume inv: "flow_inv f"
  show ?thesis
  proof (cases "i < length (role_views f)")
    case False
    then show ?thesis using inv by (simp add: RolePrompt expire_def)
  next
    case True
    then have "list_ex rsv_stopped ((role_views f)[i := (role_views f ! i)\<lparr>rsv_stopped := True\<rparr>])"
      by (intro list_ex_update) simp_all
    with True inv show ?thesis
      by (auto simp: RolePrompt expire_def flow_inv_def)
  qed
qed

text \<open>A submission of a waiting modal shows a live role view.\<close>

lemma dispatch_modal_submit:
  assumes "k < length (waiting f)"
  shows "dispatch gw f (ModalSubmit k t b) =
           Inr (f\<lparr>waiting := take k (waiting f) @ drop (Suc k) (waiting f),
                  role_views := role_views f @
                    [RoleSelectView (guild_roles gw) (csv_selected_channel_id (channel_view f))],
                  channel_view := (channel_view f)\<lparr>csv_stopped := True\<rparr>\<rparr>,
                [Defer,
                 FollowupSendView ''Please select roles to mention (optional):''
                   (RoleSelectView (guild_roles gw) (csv_selected_channel_id (channel_view f)))])"
  using assms
  by (simp add: dispatch_def modal_submitted_def on_submit_def channel_select_resume_def
                Let_def hasattr_def)

lemma stage_after_modal_submit:
  assumes "k < length (waiting f)"
  shows "stage_of (after gw f (ModalSubmit k t b)) = AwaitingRoles"
  by (simp add: after_def dispatch_modal_submit [OF assms] stage_of_def RoleSelectView_def Let_def)




section \<open>Stopped views\<close>

lemma only_live_stopped:
  assumes "only_live f i"
  shows "list_all rsv_stopped ((role_views f)[i := (role_views f ! i)\<lparr>rsv_stopped := True\<rparr>])"
proof -
  have "(role_views f)[i := (role_views f ! i)\<lparr>rsv_stopped := True\<rparr>] =
        take i (role_views f) @ (role_views f ! i)\<lparr>rsv_stopped := True\<rparr> # drop (Suc i) (role_views f)"
    using assms by (simp add: only_live_def upd_conv_take_nth_drop)
  then show ?thesis
    using assms by (simp add: only_live_def)
qed

text \<open>Send or skip on a live role view whose channel is found.\<close>

lemma dispatch_send_found:
  assumes "i < length (role_views f)" and "\<not> rsv_stopped (role_views f ! i)"
    and "ev = SendButton i \<or> ev = SkipButton i"
    and "get_channel gw (rsv_selected_channel_id (role_views f ! i)) = Some (TextChannel cid)"
  shows "\<exists>m answer d.
           dispatch gw f ev =
             Inr (f\<lparr>delivered := d,
                    role_views := (role_views f)[i := (role_views f ! i)\<lparr>rsv_stopped := True\<rparr>]\<rparr>,
                  [ChannelSend m, answer]) \<and>
           message_channel m = cid \<and>
           message_embed m = \<lparr>embed_title = None, embed_description = None\<rparr> \<and>
           (channel_send gw = Delivered \<longrightarrow> d = delivered f @ [m] \<and> answer = SendMessage (MessageSentTo cid)) \<and>
           (channel_send gw = Forbidden \<longrightarrow> d = delivered f \<and>
              answer = SendMessage (Text
                ''Error: I don't have permission to send messages to that channel.'')) \<and>
           (\<forall>e. channel_send gw = OtherException e \<longrightarrow> d = delivered f \<and>
              answer = SendMessage (UnexpectedError e))"
  using assms
  by (cases "channel_send gw")
     (auto simp: dispatch_def send_button_callback_def skip_button_callback_def
                 send_message_action_def Let_def Namespace_def)




section \<open>The claims\<close>







text \<open>
  C3. At stage \<open>AwaitingRoles\<close>, on a live role view whose channel is found as a text channel,
  \<^verbatim>\<open>send_message_action\<close> hands exactly one message to \<^verbatim>\<open>channel.send\<close>, whatever the outcome of
  the delivery. With no roles its content is \<^verbatim>\<open>None\<close> (no mention prefix). With roles its
  content is the tokens \<^verbatim>\<open><@&\<close>, decimal identifier, \<^verbatim>\<open>>\<close> of the roles, joined by single
  spaces: the content splits at the spaces into exactly these tokens, one per role and in
  their order, each identifier reads back as the role's, and the tokens of different roles
  differ.
\<close>

theorem finalize_mention_prefix:
  assumes "stage_of f = AwaitingRoles"
    and "i < length (role_views f)" and "role_views f ! i = self" and "\<not> rsv_stopped self"
    and "get_channel gw (rsv_selected_channel_id self) = Some (TextChannel cid)"
  shows "\<exists>f' prefix answer.
           send_message_action gw f i self rs =
             Inr (f', [ChannelSend \<lparr>message_channel = cid, message_content = prefix,
                                     message_embed = \<lparr>embed_title = None,
                                                       embed_description = None\<rparr>\<rparr>,
                       answer]) \<and>
           (rs = [] \<longrightarrow> prefix = None) \<and>
           (rs \<noteq> [] \<longrightarrow>
              prefix = Some (join '' '' (map (\<lambda>r. ''<@&'' @ str_int r @ ''>'') rs)) \<and>
              split_on CHR '' '' (join '' '' (map (\<lambda>r. ''<@&'' @ str_int r @ ''>'') rs)) =
                map (\<lambda>r. ''<@&'' @ str_int r @ ''>'') rs \<and>
              map (py_int \<circ> str_int) rs = map Some rs \<and>
              (distinct rs \<longrightarrow> distinct (map (\<lambda>r. ''<@&'' @ str_int r @ ''>'') rs)))"
proof -
  have tok: "(\<lambda>r. ''<@&'' @ str_int r @ ''>'') = mention_token"
    by (rule ext) (simp add: mention_token_def)
  show ?thesis
  proof (cases "rs = []")
    case True
    with assms show ?thesis
      by (cases "channel_send gw")
         (simp_all add: send_message_action_def Let_def role_mentions_str_def Namespace_def)
  next
    case False
    have p: "role_mentions_str rs = join '' '' (map mention_token rs)"
      using False by (simp add: role_mentions_str_def)
    have ne: "join '' '' (map mention_token rs) \<noteq> []"
      using False role_mentions_str_Nil [of rs] by (simp add: p)
    have sp: "split_on CHR '' '' (join '' '' (map mention_token rs)) = map mention_token rs"
      using False by (intro split_on_join) (auto simp: space_not_in_mention_token)
    have rb: "map (py_int \<circ> str_int) rs = map Some rs"
      by (simp add: py_int_str_int)
    from assms ne sp rb False show ?thesis
      unfolding tok
      by (cases "channel_send gw")
         (simp_all add: send_message_action_def Let_def p distinct_mention_tokens Namespace_def)
  qed
qed

theorem finalize_mention_prefix_witness:
  "stage_of (scenario_chosen scenario_roles) = AwaitingRoles \<and>
   0 < length (role_views (scenario_chosen scenario_roles)) \<and>
   role_views (scenario_chosen scenario_roles) ! 0 = RoleSelectView scenario_roles (Some 1) \<and>
   \<not> rsv_stopped (RoleSelectView scenario_roles (Some 1)) \<and>
   get_channel (scenario_gateway Delivered scenario_roles)
     (rsv_selected_channel_id (RoleSelectView scenario_roles (Some 1))) = Some (TextChannel 1) \<and>
   (\<exists>f' prefix answer.
      send_message_action (scenario_gateway Delivered scenario_roles)
        (scenario_chosen scenario_roles) 0 (RoleSelectView scenario_roles (Some 1)) [7, 12] =
        Inr (f', [ChannelSend \<lparr>message_channel = 1, message_content = prefix,
                                message_embed = \<lparr>embed_title = None,
                                                  embed_description = None\<rparr>\<rparr>,
                  answer]) \<and>
      prefix = Some ''<@&7> <@&12>'' \<and>
      split_on CHR '' '' ''<@&7> <@&12>'' = [''<@&7>'', ''<@&12>''] \<and>
      distinct [''<@&7>'', ''<@&12>''])"
  (is "?h1 \<and> ?h2 \<and> ?h3 \<and> ?h4 \<and> ?h5 \<and> ?c")
proof -
  have h1: ?h1 by code_simp
  have h2: ?h2 by code_simp
  have h3: ?h3 by code_simp
  have h4: ?h4 by code_simp
  have h5: ?h5 by code_simp
  have toks: "map (\<lambda>r. ''<@&'' @ str_int r @ ''>'') [7, 12] = [''<@&7>'', ''<@&12>'']"
    by code_simp
  have j: "join '' '' [''<@&7>'', ''<@&12>''] = ''<@&7> <@&12>''"
    by code_simp
  have ne: "[7, 12 :: int] \<noteq> []" and di: "distinct [7, 12 :: int]"
    by simp_all
  note th = finalize_mention_prefix [OF h1 h2 h3 h4 h5, of "[7, 12]", unfolded toks j]
  from th ne di have ?c by blast
  with h1 h2 h3 h4 h5 show ?thesis by blast
qed

text \<open>
  C4, at a guild in which the bot may send to a channel: the command raises \<^verbatim>\<open>AttributeError\<close>
  where it evaluates \<^verbatim>\<open>discord.utils.Namespace()\<close>, before it builds the view and before it
  answers, so no flow is set up and no prompt is shown.
\<close>

theorem command_raises:
  "filter send_messages (text_channels scenario_guild) \<noteq> [] \<and>
   send_message_command (Some scenario_guild) = Inl AttributeError"
  by code_simp

text \<open>
  C5, as the code has it. A submitted form is never rejected. \<^verbatim>\<open>on_submit\<close> stores the title and
  the body exactly as they were submitted, without trimming and without a check, and the
  callback that was waiting shows the role prompt: the stage moves from \<open>AwaitingForm\<close> to
  \<open>AwaitingRoles\<close>. That the two fields are filled in is only asked of the platform, through
  \<^verbatim>\<open>required=True\<close> on both inputs of the modal.
\<close>

theorem form_submission_accepted:
  assumes "stage_of f = AwaitingForm" and "k < length (waiting f)"
  shows "\<exists>f'. dispatch gw f (ModalSubmit k t b) =
              Inr (f', [Defer,
                        FollowupSendView ''Please select roles to mention (optional):''
                          (RoleSelectView (guild_roles gw)
                             (csv_selected_channel_id (channel_view f)))]) \<and>
              on_submit t b =
                (\<lparr>ns_selected_channel_id = None, ns_msg_title = Some t, ns_body = Some b\<rparr>,
                 [Defer]) \<and>
              stage_of f' = AwaitingRoles \<and>
              ti_required (msg_title MessageModal) \<and> ti_required (body MessageModal)"
proof -
  have d: "dispatch gw f (ModalSubmit k t b) =
           Inr (after gw f (ModalSubmit k t b),
                [Defer,
                 FollowupSendView ''Please select roles to mention (optional):''
                   (RoleSelectView (guild_roles gw) (csv_selected_channel_id (channel_view f)))])"
    by (simp add: after_def dispatch_modal_submit [OF assms(2)])
  have st: "stage_of (after gw f (ModalSubmit k t b)) = AwaitingRoles"
    by (rule stage_after_modal_submit [OF assms(2)])
  have os: "on_submit t b =
      (\<lparr>ns_selected_channel_id = None, ns_msg_title = Some t, ns_body = Some b\<rparr>, [Defer])"
    by (simp add: on_submit_def Namespace_def)
  have rq: "ti_required (msg_title MessageModal)" "ti_required (body MessageModal)"
    by (simp_all add: MessageModal_def)
  from d st os rq show ?thesis by blast
qed

theorem form_submission_accepted_witness:
  "stage_of scenario_form = AwaitingForm \<and>
   0 < length (waiting scenario_form) \<and>
   (\<exists>f'. dispatch (scenario_gateway Delivered scenario_roles) scenario_form
              (ModalSubmit 0 [] ''Service restarts at 5pm'') =
              Inr (f', [Defer,
                        FollowupSendView ''Please select roles to mention (optional):''
                          (RoleSelectView (guild_roles (scenario_gateway Delivered scenario_roles))
                             (csv_selected_channel_id (channel_view scenario_form)))]) \<and>
              on_submit [] ''Service restarts at 5pm'' =
                (\<lparr>ns_selected_channel_id = None, ns_msg_title = Some [],
                  ns_body = Some ''Service restarts at 5pm''\<rparr>,
                 [Defer]) \<and>
              stage_of f' = AwaitingRoles \<and>
              ti_required (msg_title MessageModal) \<and> ti_required (body MessageModal))"
  (is "?h1 \<and> ?h2 \<and> ?c")
proof -
  have h1: ?h1 by code_simp
  have h2: ?h2 by code_simp
  from form_submission_accepted [OF h1 h2] have ?c .
  with h1 h2 show ?thesis by blast
qed

text \<open>
  A title of three spaces is empty after trimming; it is stored as it is and the flow goes on
  to the role prompt.
\<close>

theorem form_submission_counterexample:
  "stage_of scenario_form = AwaitingForm \<and>
   dropWhile (\<lambda>c. c = CHR '' '') ''   '' = [] \<and>
   dispatch (scenario_gateway Delivered scenario_roles) scenario_form
       (ModalSubmit 0 ''   '' ''Service restarts at 5pm'') =
     Inr (after (scenario_gateway Delivered scenario_roles) scenario_form
            (ModalSubmit 0 ''   '' ''Service restarts at 5pm''),
          [Defer,
           FollowupSendView ''Please select roles to mention (optional):''
             (RoleSelectView scenario_roles (Some 1))]) \<and>
   ns_msg_title (fst (on_submit ''   '' ''Service restarts at 5pm'')) = Some ''   '' \<and>
   stage_of (after (scenario_gateway Delivered scenario_roles) scenario_form
       (ModalSubmit 0 ''   '' ''Service restarts at 5pm'')) = AwaitingRoles"
  by code_simp

text \<open>
  C6, as the code has it. The channel view and the role view have an idle window of 180
  seconds; the modal has none. When the window of a view runs out nothing is answered, and the
  view receives no further interaction. A flow idling at \<open>AwaitingChannel\<close> is at \<open>Aborted\<close>
  after that, and so is a flow idling on its only live role view with nothing delivered. A
  flow idling at \<open>AwaitingForm\<close> stays at \<open>AwaitingForm\<close> when the window of the channel view
  runs out, and a later submission of a waiting modal is handled as before and shows the role
  prompt.
\<close>

theorem idle_windows:
  "csv_timeout (ChannelSelectView chs) = 180 \<and>
   rsv_timeout (RoleSelectView rs c) = 180 \<and>
   modal_timeout MessageModal = None \<and>
   snd (expire f p) = [] \<and>
   (stage_of f = AwaitingChannel \<longrightarrow> stage_of (fst (expire f ChannelPrompt)) = Aborted) \<and>
   (only_live f i \<and> delivered f = [] \<longrightarrow> stage_of (fst (expire f (RolePrompt i))) = Aborted) \<and>
   (stage_of f = AwaitingForm \<longrightarrow>
      stage_of (fst (expire f ChannelPrompt)) = AwaitingForm \<and>
      (k < length (waiting f) \<longrightarrow>
         dispatch gw (fst (expire f ChannelPrompt)) (ModalSubmit k t b) =
           Inr (after gw (fst (expire f ChannelPrompt)) (ModalSubmit k t b),
                [Defer,
                 FollowupSendView ''Please select roles to mention (optional):''
                   (RoleSelectView (guild_roles gw) (csv_selected_channel_id (channel_view f)))]) \<and>
         stage_of (after gw (fst (expire f ChannelPrompt)) (ModalSubmit k t b)) = AwaitingRoles))"
proof (intro conjI impI)
  show "csv_timeout (ChannelSelectView chs) = 180"
    by (simp add: ChannelSelectView_def)
  show "rsv_timeout (RoleSelectView rs c) = 180"
    by (simp add: RoleSelectView_def Let_def)
  show "modal_timeout MessageModal = None"
    by (simp add: MessageModal_def)
  show "snd (expire f p) = []"
    by (cases p) (simp_all add: expire_def)
next
  assume "stage_of f = AwaitingChannel"
  then show "stage_of (fst (expire f ChannelPrompt)) = Aborted"
    by (auto simp: stage_of_def expire_def split: if_splits)
next
  assume a: "only_live f i \<and> delivered f = []"
  then have "list_all rsv_stopped ((role_views f)[i := (role_views f ! i)\<lparr>rsv_stopped := True\<rparr>])"
    using only_live_stopped by blast
  moreover have "i < length (role_views f)"
    using a by (simp add: only_live_def)
  ultimately show "stage_of (fst (expire f (RolePrompt i))) = Aborted"
    using a by (auto simp: stage_of_def expire_def)
next
  assume "stage_of f = AwaitingForm"
  then show "stage_of (fst (expire f ChannelPrompt)) = AwaitingForm"
    by (auto simp: stage_of_def expire_def split: if_splits)
next
  assume "k < length (waiting f)"
  then have k: "k < length (waiting (fst (expire f ChannelPrompt)))"
    by (simp add: expire_def)
  show "dispatch gw (fst (expire f ChannelPrompt)) (ModalSubmit k t b) =
           Inr (after gw (fst (expire f ChannelPrompt)) (ModalSubmit k t b),
                [Defer,
                 FollowupSendView ''Please select roles to mention (optional):''
                   (RoleSelectView (guild_roles gw) (csv_selected_channel_id (channel_view f)))])"
    by (simp add: after_def dispatch_modal_submit [OF k]) (simp add: expire_def)
  show "stage_of (after gw (fst (expire f ChannelPrompt)) (ModalSubmit k t b)) = AwaitingRoles"
    by (rule stage_after_modal_submit [OF k])
qed

theorem idle_windows_witness:
  "stage_of scenario_start = AwaitingChannel \<and>
   stage_of (fst (expire scenario_start ChannelPrompt)) = Aborted \<and>
   only_live scenario_selected 0 \<and> delivered scenario_selected = [] \<and>
   stage_of (fst (expire scenario_selected (RolePrompt 0))) = Aborted \<and>
   stage_of scenario_form = AwaitingForm \<and>
   0 < length (waiting scenario_form) \<and>
   stage_of (fst (expire scenario_form ChannelPrompt)) = AwaitingForm \<and>
   stage_of (after (scenario_gateway Delivered scenario_roles)
               (fst (expire scenario_form ChannelPrompt))
               (ModalSubmit 0 ''Maintenance'' ''Service restarts at 5pm'')) = AwaitingRoles"
  (is "?h1 \<and> ?c1 \<and> ?h2 \<and> ?h3 \<and> ?c2 \<and> ?h4 \<and> ?h5 \<and> ?c3 \<and> ?c4")
proof -
  have h1: ?h1 by code_simp
  have h2: ?h2 by code_simp
  have h3: ?h3 by code_simp
  have h4: ?h4 by code_simp
  have h5: ?h5 by code_simp
  have c1: ?c1 using idle_windows [where f = scenario_start] h1 by blast
  have c2: ?c2 using idle_windows [where f = scenario_selected and i = 0] h2 h3 by blast
  note th = idle_windows [where f = scenario_form and k = 0
      and gw = "scenario_gateway Delivered scenario_roles"
      and t = "''Maintenance''" and b = "''Service restarts at 5pm''"]
  have c3: ?c3 using th h4 by blast
  have c4: ?c4 using th h4 h5 by blast
  from h1 c1 h2 h3 c2 h4 h5 c3 c4 show ?thesis by blast
qed

text \<open>
  In the scenario, with the form awaited: the modal has no idle window, the expiry of the
  channel view answers nothing and leaves the stage at \<open>AwaitingForm\<close>, and the form can still be
  submitted.
\<close>

theorem idle_form_counterexample:
  "stage_of scenario_form = AwaitingForm \<and>
   modal_timeout MessageModal = None \<and>
   expire scenario_form ChannelPrompt =
     (scenario_form\<lparr>channel_view := (channel_view scenario_form)\<lparr>csv_stopped := True\<rparr>\<rparr>, []) \<and>
   stage_of (fst (expire scenario_form ChannelPrompt)) = AwaitingForm \<and>
   dispatch (scenario_gateway Delivered scenario_roles)
       (fst (expire scenario_form ChannelPrompt))
       (ModalSubmit 0 ''Maintenance'' ''Service restarts at 5pm'') =
     Inr (after (scenario_gateway Delivered scenario_roles)
            (fst (expire scenario_form ChannelPrompt))
            (ModalSubmit 0 ''Maintenance'' ''Service restarts at 5pm''),
          [Defer,
           FollowupSendView ''Please select roles to mention (optional):''
             (RoleSelectView scenario_roles (Some 1))]) \<and>
   stage_of (after (scenario_gateway Delivered scenario_roles)
               (fst (expire scenario_form ChannelPrompt))
               (ModalSubmit 0 ''Maintenance'' ''Service restarts at 5pm'')) = AwaitingRoles"
  by code_simp



text \<open>
  C8, as the code has it. The role dropdown has one option per role of the guild that is not
  named \<^verbatim>\<open>@everyone\<close>, in their order, labelled with the role's name and with its identifier as
  value, and as many of them may be chosen at once. When no such role is left it has the single
  entry \<^verbatim>\<open>No roles available\<close> with the value \<^verbatim>\<open>no_roles\<close>, which is an ordinary option that can
  be chosen and whose value is the identifier of no role. Choosing it is not an error: it
  records that no role is selected, answers \<^verbatim>\<open>No roles selected or available.\<close> and leaves the
  flow at the role step with nothing sent; the send button then does what the skip button does.
\<close>

theorem role_prompt:
  "(filter (\<lambda>r. role_name r \<noteq> ''@everyone'') rs \<noteq> [] \<longrightarrow>
      rsv_options (RoleSelectView rs c) =
        map (\<lambda>r. \<lparr>opt_label = role_name r, opt_value = str_int (role_id r)\<rparr>)
            (filter (\<lambda>r. role_name r \<noteq> ''@everyone'') rs) \<and>
      rsv_max_values (RoleSelectView rs c) =
        length (filter (\<lambda>r. role_name r \<noteq> ''@everyone'') rs)) \<and>
   (filter (\<lambda>r. role_name r \<noteq> ''@everyone'') rs = [] \<longrightarrow>
      rsv_options (RoleSelectView rs c) =
        [\<lparr>opt_label = ''No roles available'', opt_value = ''no_roles''\<rparr>] \<and>
      rsv_max_values (RoleSelectView rs c) = 1) \<and>
   py_int ''no_roles'' = None \<and>
   (i < length (role_views f) \<and> role_views f ! i = self \<and> \<not> rsv_stopped self \<and>
    ''no_roles'' \<in> set vs \<longrightarrow>
      dispatch gw f (RoleSelect i vs) =
        Inr (f\<lparr>role_views := (role_views f)[i := self\<lparr>rsv_selected_roles := []\<rparr>]\<rparr>,
             [SendMessage (Text ''No roles selected or available.'')]) \<and>
      stage_of (f\<lparr>role_views := (role_views f)[i := self\<lparr>rsv_selected_roles := []\<rparr>]\<rparr>) =
        AwaitingRoles \<and>
      delivered (f\<lparr>role_views := (role_views f)[i := self\<lparr>rsv_selected_roles := []\<rparr>]\<rparr>) =
        delivered f \<and>
      dispatch gw' (f\<lparr>role_views := (role_views f)[i := self\<lparr>rsv_selected_roles := []\<rparr>]\<rparr>)
          (SendButton i) =
        dispatch gw' (f\<lparr>role_views := (role_views f)[i := self\<lparr>rsv_selected_roles := []\<rparr>]\<rparr>)
          (SkipButton i))"
proof (intro conjI impI)
  let ?named = "filter (\<lambda>r. role_name r \<noteq> ''@everyone'') rs"
  {
    assume ne: "?named \<noteq> []"
    then obtain r rest where named: "?named = r # rest"
      by (cases ?named) auto
    show "rsv_options (RoleSelectView rs c) =
        map (\<lambda>r. \<lparr>opt_label = role_name r, opt_value = str_int (role_id r)\<rparr>) ?named"
      using ne by (simp add: RoleSelectView_def Let_def role_options_values)
    have "opt_value (hd (role_options rs)) = str_int (role_id r)"
      using ne by (simp add: role_options_values named)
    then have "opt_value (hd (role_options rs)) \<noteq> ''no_roles''"
      by (simp add: str_int_not_no_roles)
    then show "rsv_max_values (RoleSelectView rs c) = length ?named"
      using ne by (simp add: RoleSelectView_def Let_def role_options_values)
  }
  {
    assume e: "?named = []"
    show "rsv_options (RoleSelectView rs c) =
        [\<lparr>opt_label = ''No roles available'', opt_value = ''no_roles''\<rparr>]"
      using e by (simp add: RoleSelectView_def Let_def role_options_none)
    show "rsv_max_values (RoleSelectView rs c) = 1"
      using e by (simp add: RoleSelectView_def Let_def role_options_none)
  }
  show "py_int ''no_roles'' = None"
    by (rule py_int_no_roles)
  {
    assume a: "i < length (role_views f) \<and> role_views f ! i = self \<and> \<not> rsv_stopped self \<and>
      ''no_roles'' \<in> set vs"
    let ?f' = "f\<lparr>role_views := (role_views f)[i := self\<lparr>rsv_selected_roles := []\<rparr>]\<rparr>"
    show "dispatch gw f (RoleSelect i vs) =
        Inr (?f', [SendMessage (Text ''No roles selected or available.'')])"
      using a by (simp add: dispatch_def role_select_callback_def)
    have "i < length (role_views ?f')" "\<not> rsv_stopped (role_views ?f' ! i)"
      using a by simp_all
    then show "stage_of ?f' = AwaitingRoles"
      by (rule stage_of_live)
    show "delivered ?f' = delivered f"
      by simp
    show "dispatch gw' ?f' (SendButton i) = dispatch gw' ?f' (SkipButton i)"
      using a by (simp add: dispatch_def send_button_callback_def skip_button_callback_def)
  }
qed

theorem role_prompt_witness:
  "filter (\<lambda>r. role_name r \<noteq> ''@everyone'') scenario_roles \<noteq> [] \<and>
   rsv_options (RoleSelectView scenario_roles (Some 1)) =
     [\<lparr>opt_label = ''mods'', opt_value = ''7''\<rparr>] \<and>
   rsv_max_values (RoleSelectView scenario_roles (Some 1)) = 1 \<and>
   filter (\<lambda>r. role_name r \<noteq> ''@everyone'') scenario_everyone = [] \<and>
   rsv_options (RoleSelectView scenario_everyone (Some 1)) =
     [\<lparr>opt_label = ''No roles available'', opt_value = ''no_roles''\<rparr>] \<and>
   0 < length (role_views (scenario_chosen scenario_everyone)) \<and>
   role_views (scenario_chosen scenario_everyone) ! 0 = RoleSelectView scenario_everyone (Some 1) \<and>
   \<not> rsv_stopped (RoleSelectView scenario_everyone (Some 1)) \<and>
   ''no_roles'' \<in> set [''no_roles''] \<and>
   dispatch (scenario_gateway Delivered scenario_everyone) (scenario_chosen scenario_everyone)
       (RoleSelect 0 [''no_roles'']) =
     Inr ((scenario_chosen scenario_everyone)
            \<lparr>role_views := (role_views (scenario_chosen scenario_everyone))
               [0 := (RoleSelectView scenario_everyone (Some 1))\<lparr>rsv_selected_roles := []\<rparr>]\<rparr>,
          [SendMessage (Text ''No roles selected or available.'')]) \<and>
   dispatch (scenario_gateway Delivered scenario_everyone)
       ((scenario_chosen scenario_everyone)
          \<lparr>role_views := (role_views (scenario_chosen scenario_everyone))
             [0 := (RoleSelectView scenario_everyone (Some 1))\<lparr>rsv_selected_roles := []\<rparr>]\<rparr>)
       (SendButton 0) =
     dispatch (scenario_gateway Delivered scenario_everyone)
       ((scenario_chosen scenario_everyone)
          \<lparr>role_views := (role_views (scenario_chosen scenario_everyone))
             [0 := (RoleSelectView scenario_everyone (Some 1))\<lparr>rsv_selected_roles := []\<rparr>]\<rparr>)
       (SkipButton 0)"
  (is "?h1 \<and> ?c1 \<and> ?c2 \<and> ?h2 \<and> ?c3 \<and> ?h3 \<and> ?h4 \<and> ?h5 \<and> ?h6 \<and> ?c4 \<and> ?c5")
proof -
  have h1: ?h1 by code_simp
  have h2: ?h2 by code_simp
  have h3: ?h3 by code_simp
  have h4: ?h4 by code_simp
  have h5: ?h5 by code_simp
  have h6: ?h6 by simp
  have m: "map (\<lambda>r. \<lparr>opt_label = role_name r, opt_value = str_int (role_id r)\<rparr>)
             (filter (\<lambda>r. role_name r \<noteq> ''@everyone'') scenario_roles) =
           [\<lparr>opt_label = ''mods'', opt_value = ''7''\<rparr>]"
    by code_simp
  have l: "length (filter (\<lambda>r. role_name r \<noteq> ''@everyone'') scenario_roles) = 1"
    by code_simp
  have c12: "?c1 \<and> ?c2"
    using role_prompt [where rs = scenario_roles and c = "Some 1"] h1 unfolding m l by blast
  have c345: "?c3 \<and> ?c4 \<and> ?c5"
    using role_prompt [where rs = scenario_everyone and c = "Some 1"
        and f = "scenario_chosen scenario_everyone" and i = 0
        and self = "RoleSelectView scenario_everyone (Some 1)" and vs = "[''no_roles'']"
        and gw = "scenario_gateway Delivered scenario_everyone"
        and gw' = "scenario_gateway Delivered scenario_everyone"] h2 h3 h4 h5 h6
    by blast
  from h1 h2 h3 h4 h5 h6 c12 c345 show ?thesis by blast
qed

text \<open>
  With no role but \<^verbatim>\<open>@everyone\<close> in the scenario: choosing the entry leaves the flow at
  \<open>AwaitingRoles\<close> with nothing delivered, while the skip button delivers the message without
  mentions and completes the flow. The entry can be chosen, and choosing it is not skipping.
\<close>

theorem role_prompt_counterexample:
  "rsv_options (RoleSelectView scenario_everyone (Some 1)) =
     [\<lparr>opt_label = ''No roles available'', opt_value = ''no_roles''\<rparr>] \<and>
   role_views (scenario_chosen scenario_everyone) = [RoleSelectView scenario_everyone (Some 1)] \<and>
   stage_of (scenario_chosen scenario_everyone) = AwaitingRoles \<and>
   dispatch (scenario_gateway Delivered scenario_everyone) (scenario_chosen scenario_everyone)
       (RoleSelect 0 [''no_roles'']) =
     Inr (scenario_chosen scenario_everyone,
          [SendMessage (Text ''No roles selected or available.'')]) \<and>
   stage_of (after (scenario_gateway Delivered scenario_everyone)
       (scenario_chosen scenario_everyone) (RoleSelect 0 [''no_roles''])) = AwaitingRoles \<and>
   delivered (after (scenario_gateway Delivered scenario_everyone)
       (scenario_chosen scenario_everyone) (RoleSelect 0 [''no_roles''])) = [] \<and>
   dispatch (scenario_gateway Delivered scenario_everyone) (scenario_chosen scenario_everyone)
       (SkipButton 0) =
     Inr (after (scenario_gateway Delivered scenario_everyone)
            (scenario_chosen scenario_everyone) (SkipButton 0),
          [ChannelSend \<lparr>message_channel = 1, message_content = None,
                         message_embed = \<lparr>embed_title = None, embed_description = None\<rparr>\<rparr>,
           SendMessage (MessageSentTo 1)]) \<and>
   stage_of (after (scenario_gateway Delivered scenario_everyone)
       (scenario_chosen scenario_everyone) (SkipButton 0)) = Completed \<and>
   delivered (after (scenario_gateway Delivered scenario_everyone)
       (scenario_chosen scenario_everyone) (SkipButton 0)) =
     [\<lparr>message_channel = 1, message_content = None,
       message_embed = \<lparr>embed_title = None, embed_description = None\<rparr>\<rparr>]"
  by code_simp

text \<open>
  C9. On a live role view the skip button runs \<^verbatim>\<open>send_message_action\<close> with no roles, whatever
  has been selected in the dropdown: a message it sends has no mention prefix, what it answers
  does not depend on the selection, and when the delivery succeeds the message with no
  content is the one delivered.
\<close>

theorem skip_discards_selection:
  assumes "stage_of f = AwaitingRoles"
    and "i < length (role_views f)" and "role_views f ! i = self" and "\<not> rsv_stopped self"
  shows "dispatch gw f (SkipButton i) = send_message_action gw f i self [] \<and>
         (\<forall>f' effs m. dispatch gw f (SkipButton i) = Inr (f', effs) \<and> ChannelSend m \<in> set effs
            \<longrightarrow> message_content m = None) \<and>
         map_sum fst snd
           (dispatch gw (f\<lparr>role_views := (role_views f)[i := self\<lparr>rsv_selected_roles := sel\<rparr>]\<rparr>)
              (SkipButton i)) =
           map_sum fst snd (dispatch gw f (SkipButton i)) \<and>
         (get_channel gw (rsv_selected_channel_id self) = Some (TextChannel cid) \<and>
          channel_send gw = Delivered \<longrightarrow>
            dispatch gw f (SkipButton i) =
              Inr (f\<lparr>delivered := delivered f @
                        [\<lparr>message_channel = cid, message_content = None,
                          message_embed = \<lparr>embed_title = None, embed_description = None\<rparr>\<rparr>],
                      role_views := (role_views f)[i := self\<lparr>rsv_stopped := True\<rparr>]\<rparr>,
                   [ChannelSend \<lparr>message_channel = cid, message_content = None,
                                  message_embed = \<lparr>embed_title = None,
                                                    embed_description = None\<rparr>\<rparr>,
                    SendMessage (MessageSentTo cid)]))"
proof -
  have d: "dispatch gw f (SkipButton i) = send_message_action gw f i self []"
    using assms(2-4) by (simp add: dispatch_def skip_button_callback_def)
  have c: "message_content m = None"
    if "send_message_action gw f i self [] = Inr (f', effs)" and "ChannelSend m \<in> set effs"
    for f' effs m
    using that
    by (auto simp: send_message_action_def Let_def role_mentions_str_def
             split: option.splits gateway_channel.splits send_outcome.splits)
  have e: "map_sum fst snd
           (dispatch gw (f\<lparr>role_views := (role_views f)[i := self\<lparr>rsv_selected_roles := sel\<rparr>]\<rparr>)
              (SkipButton i)) =
           map_sum fst snd (dispatch gw f (SkipButton i))"
    using assms(2-4)
    by (auto simp: dispatch_def skip_button_callback_def send_message_action_def Let_def
             split: option.splits gateway_channel.splits send_outcome.splits)
  have s: "dispatch gw f (SkipButton i) =
              Inr (f\<lparr>delivered := delivered f @
                        [\<lparr>message_channel = cid, message_content = None,
                          message_embed = \<lparr>embed_title = None, embed_description = None\<rparr>\<rparr>],
                      role_views := (role_views f)[i := self\<lparr>rsv_stopped := True\<rparr>]\<rparr>,
                   [ChannelSend \<lparr>message_channel = cid, message_content = None,
                                  message_embed = \<lparr>embed_title = None,
                                                    embed_description = None\<rparr>\<rparr>,
                    SendMessage (MessageSentTo cid)])"
    if "get_channel gw (rsv_selected_channel_id self) = Some (TextChannel cid) \<and>
        channel_send gw = Delivered"
    using that unfolding d
    by (simp add: send_message_action_def Let_def role_mentions_str_def Namespace_def)
  from d c e s show ?thesis by auto
qed

theorem skip_discards_selection_witness:
  "stage_of scenario_selected = AwaitingRoles \<and>
   0 < length (role_views scenario_selected) \<and>
   role_views scenario_selected ! 0 =
     (RoleSelectView scenario_roles (Some 1))\<lparr>rsv_selected_roles := [7]\<rparr> \<and>
   \<not> rsv_stopped ((RoleSelectView scenario_roles (Some 1))\<lparr>rsv_selected_roles := [7]\<rparr>) \<and>
   get_channel (scenario_gateway Delivered scenario_roles)
     (rsv_selected_channel_id
        ((RoleSelectView scenario_roles (Some 1))\<lparr>rsv_selected_roles := [7]\<rparr>)) =
     Some (TextChannel 1) \<and>
   channel_send (scenario_gateway Delivered scenario_roles) = Delivered \<and>
   dispatch (scenario_gateway Delivered scenario_roles) scenario_selected (SkipButton 0) =
     Inr (scenario_selected
            \<lparr>delivered := delivered scenario_selected @
               [\<lparr>message_channel = 1, message_content = None,
                 message_embed = \<lparr>embed_title = None, embed_description = None\<rparr>\<rparr>],
             role_views := (role_views scenario_selected)
               [0 := (RoleSelectView scenario_roles (Some 1))
                       \<lparr>rsv_selected_roles := [7], rsv_stopped := True\<rparr>]\<rparr>,
          [ChannelSend \<lparr>message_channel = 1, message_content = None,
                         message_embed = \<lparr>embed_title = None, embed_description = None\<rparr>\<rparr>,
           SendMessage (MessageSentTo 1)])"
  (is "?h1 \<and> ?h2 \<and> ?h3 \<and> ?h4 \<and> ?h5 \<and> ?h6 \<and> ?c")
proof -
  have h1: ?h1 by code_simp
  have h2: ?h2 by code_simp
  have h3: ?h3 by code_simp
  have h4: ?h4 by code_simp
  have h5: ?h5 by code_simp
  have h6: ?h6 by code_simp
  note th = skip_discards_selection [OF h1 h2 h3 h4,
      where gw = "scenario_gateway Delivered scenario_roles" and sel = "[]" and cid = 1]
  from th h5 h6 have ?c by blast
  with h1 h2 h3 h4 h5 h6 show ?thesis by blast
qed

text \<open>
  C10. On a live role view, when the gateway finds no channel for the selected identifier, or
  one that is not a text channel, send and skip answer that the selected channel could not be
  found and return before \<^verbatim>\<open>self.stop()\<close>: nothing is sent and the flow is exactly as before, so
  a further send or skip is handled and, once the channel is found, sends the message.
\<close>

theorem unresolved_channel_keeps_view:
  assumes "stage_of f = AwaitingRoles"
    and "i < length (role_views f)" and "role_views f ! i = self" and "\<not> rsv_stopped self"
    and "get_channel gw (rsv_selected_channel_id self) = None \<or>
         get_channel gw (rsv_selected_channel_id self) = Some OtherChannel"
    and "ev = SendButton i \<or> ev = SkipButton i"
  shows "dispatch gw f ev =
           Inr (f, [SendMessage (Text ''Error: Could not find the selected channel.'')]) \<and>
         after gw f ev = f \<and>
         (\<forall>gw' ev' cid.
            (ev' = SendButton i \<or> ev' = SkipButton i) \<and>
            get_channel gw' (rsv_selected_channel_id self) = Some (TextChannel cid)
            \<longrightarrow> (\<exists>f' m answer. dispatch gw' (after gw f ev) ev' =
                                   Inr (f', [ChannelSend m, answer]) \<and>
                                 message_channel m = cid))"
proof -
  have live: "\<not> rsv_stopped (role_views f ! i)"
    using assms(3,4) by simp
  have d: "dispatch gw f ev =
           Inr (f, [SendMessage (Text ''Error: Could not find the selected channel.'')])"
    using assms(2-6)
    by (auto simp: dispatch_def send_button_callback_def skip_button_callback_def
                   send_message_action_def)
  then have a: "after gw f ev = f"
    by (simp add: after_def)
  have again: "\<exists>f' m answer. dispatch gw' f ev' = Inr (f', [ChannelSend m, answer]) \<and>
                 message_channel m = cid"
    if "ev' = SendButton i \<or> ev' = SkipButton i"
      and "get_channel gw' (rsv_selected_channel_id self) = Some (TextChannel cid)"
    for gw' ev' cid
    using dispatch_send_found [OF assms(2) live that(1), of gw' cid] that(2) assms(3)
    by auto
  from d a again show ?thesis by auto
qed

theorem unresolved_channel_keeps_view_witness:
  "stage_of scenario_selected = AwaitingRoles \<and>
   0 < length (role_views scenario_selected) \<and>
   role_views scenario_selected ! 0 =
     (RoleSelectView scenario_roles (Some 1))\<lparr>rsv_selected_roles := [7]\<rparr> \<and>
   \<not> rsv_stopped ((RoleSelectView scenario_roles (Some 1))\<lparr>rsv_selected_roles := [7]\<rparr>) \<and>
   get_channel scenario_no_channel
     (rsv_selected_channel_id
        ((RoleSelectView scenario_roles (Some 1))\<lparr>rsv_selected_roles := [7]\<rparr>)) = None \<and>
   get_channel (scenario_gateway Delivered scenario_roles)
     (rsv_selected_channel_id
        ((RoleSelectView scenario_roles (Some 1))\<lparr>rsv_selected_roles := [7]\<rparr>)) =
     Some (TextChannel 1) \<and>
   dispatch scenario_no_channel scenario_selected (SendButton 0) =
     Inr (scenario_selected,
          [SendMessage (Text ''Error: Could not find the selected channel.'')]) \<and>
   after scenario_no_channel scenario_selected (SendButton 0) = scenario_selected \<and>
   (\<exists>f' m answer.
      dispatch (scenario_gateway Delivered scenario_roles)
        (after scenario_no_channel scenario_selected (SendButton 0)) (SkipButton 0) =
        Inr (f', [ChannelSend m, answer]) \<and>
      message_channel m = 1)"
  (is "?h1 \<and> ?h2 \<and> ?h3 \<and> ?h4 \<and> ?h5 \<and> ?h6 \<and> ?c1 \<and> ?c2 \<and> ?c3")
proof -
  have h1: ?h1 by code_simp
  have h2: ?h2 by code_simp
  have h3: ?h3 by code_simp
  have h4: ?h4 by code_simp
  have h5: ?h5 by code_simp
  have h6: ?h6 by code_simp
  have h5': "get_channel scenario_no_channel
     (rsv_selected_channel_id
        ((RoleSelectView scenario_roles (Some 1))\<lparr>rsv_selected_roles := [7]\<rparr>)) = None \<or>
    get_channel scenario_no_channel
     (rsv_selected_channel_id
        ((RoleSelectView scenario_roles (Some 1))\<lparr>rsv_selected_roles := [7]\<rparr>)) =
     Some OtherChannel"
    using h5 by simp
  have ev: "SendButton 0 = SendButton 0 \<or> SendButton 0 = SkipButton 0" by simp
  note th = unresolved_channel_keeps_view [OF h1 h2 h3 h4 h5' ev]
  from th have c1: ?c1 and c2: ?c2 by blast+
  from th h6 have c3: ?c3 by blast
  from h1 h2 h3 h4 h5 h6 c1 c2 c3 show ?thesis by blast
qed

end
